theory Spec2Isabelle
  imports Main "HOL-Library.Word"
begin

unbundle bit_operations_syntax

section \<open>Data model\<close>

type_synonym byte = "8 word"

text \<open>
  A Go \<^verbatim>\<open>string\<close> is a sequence of bytes, and \<^verbatim>\<open>string(data)\<close> keeps the bytes of
  \<^verbatim>\<open>data\<close> as they are. \<open>str\<close> writes a string literal of the source as its bytes.
\<close>

type_synonym gostring = "byte list"

definition str :: "string \<Rightarrow> gostring" where
  "str s = map of_char s"

text \<open>\<^verbatim>\<open>OptAction\<close> and \<^verbatim>\<open>OptProtocol\<close> are both \<^verbatim>\<open>uint32\<close> (session.go, lines 16 and 20).\<close>

type_synonym OptAction = "32 word"
type_synonym OptProtocol = "32 word"

text \<open>message.go: a command or a response, one code byte and the data after it.\<close>

record Message =
  Code :: byte
  Data :: "byte list"

text \<open>
  The error values the session code tests for or passes on: \<^verbatim>\<open>io.EOF\<close>,
  \<^verbatim>\<open>io.ErrUnexpectedEOF\<close> (made by \<^verbatim>\<open>io.ReadFull\<close>), the package's own
  \<^verbatim>\<open>errCloseSession\<close>, and any other error, kept by its text.
\<close>

datatype error = EOF | ErrUnexpectedEOF | errCloseSession | OtherError gostring

text \<open>
  How a call ends. Besides returning, the Go code can panic (an index or a slice bound
  out of range) and can end the whole process (\<^verbatim>\<open>log.Fatal\<close> calls \<^verbatim>\<open>os.Exit(1)\<close>).
  Neither of the two is an error value that a caller could inspect.
\<close>

datatype 'a outcome = Returned 'a | Panicked | Exited

text \<open>
  The transport \<^verbatim>\<open>sock io.ReadWriteCloser\<close>: the bytes the peer will still deliver, the
  error a read meets once they are used up (\<open>EOF\<close> for a peer that closed cleanly), the
  bytes written so far, whether writes succeed, and whether \<^verbatim>\<open>Close\<close> was called.
\<close>

record conn =
  rd :: "byte list"
  rd_err :: error
  wr :: "byte list"
  wr_ok :: bool
  closed :: bool

text \<open>\<^verbatim>\<open>textproto.MIMEHeader\<close> is \<^verbatim>\<open>map[string][]string\<close>; a Go map may be \<^verbatim>\<open>nil\<close>.\<close>

type_synonym MIMEHeader = "gostring \<rightharpoonup> gostring list"

text \<open>The lines the code hands to package \<^verbatim>\<open>log\<close> with \<^verbatim>\<open>log.Printf\<close>.\<close>

datatype logline =
    LogReadError error
  | LogProcessError error
  | LogWriteError error
  | LogUnrecognized byte

text \<open>
  \<^verbatim>\<open>milterSession\<close> (session.go, lines 44 to 51). The field \<^verbatim>\<open>milter\<close> holds the filter
  object; here it is the filter's own state, of any type, and the filter's methods are
  passed beside the session. \<open>logged\<close> is not a field of the struct: it collects what
  the session printed with \<^verbatim>\<open>log.Printf\<close>.
\<close>

record 'f milterSession =
  actions :: OptAction
  protocol :: OptProtocol
  sock :: conn
  headers :: "MIMEHeader option"
  macros :: "(gostring \<rightharpoonup> gostring) option"
  milter :: 'f
  logged :: "logline list"

section \<open>Big-endian integers (encoding/binary)\<close>

definition PutUint32 :: "32 word \<Rightarrow> byte list" where
  "PutUint32 v = [ucast (drop_bit 24 v), ucast (drop_bit 16 v), ucast (drop_bit 8 v), ucast v]"

definition Uint32 :: "byte list \<Rightarrow> 32 word" where
  "Uint32 b = push_bit 24 (ucast (b ! 0)) OR push_bit 16 (ucast (b ! 1))
     OR push_bit 8 (ucast (b ! 2)) OR ucast (b ! 3)"

definition Uint16 :: "byte list \<Rightarrow> 16 word" where
  "Uint16 b = push_bit 8 (ucast (b ! 0)) OR ucast (b ! 1)"

section \<open>Reading from the transport\<close>

text \<open>
  \<^verbatim>\<open>io.ReadFull(r, buf)\<close> with \<open>n = len(buf)\<close>: all \<open>n\<close> bytes, or an error. With no
  byte read the error is the transport's own; with some but fewer than \<open>n\<close>, a clean
  end of stream becomes \<open>ErrUnexpectedEOF\<close>. For \<open>n = 0\<close> nothing is read and
  there is no error.
\<close>

definition ReadFull :: "conn \<Rightarrow> nat \<Rightarrow> conn \<times> (error + byte list)" where
  "ReadFull s n =
     (if n \<le> length (rd s) then (s\<lparr>rd := drop n (rd s)\<rparr>, Inr (take n (rd s)))
      else if rd s = [] then (s, Inl (rd_err s))
      else (s\<lparr>rd := []\<rparr>, Inl (if rd_err s = EOF then ErrUnexpectedEOF else rd_err s)))"

text \<open>
  \<^verbatim>\<open>ReadPacket\<close> (session.go, lines 54 to 77). Both error branches call
  \<^verbatim>\<open>log.Fatal\<close> before their \<^verbatim>\<open>return nil, err\<close>, so the return is never reached.
  \<^verbatim>\<open>data[0]\<close> on an empty slice is an index out of range. The allocation of
  \<^verbatim>\<open>length\<close> bytes is taken to succeed.
\<close>

definition ReadPacket :: "'f milterSession \<Rightarrow> ('f milterSession \<times> Message option \<times> error option) outcome" where
  "ReadPacket c =
     (case ReadFull (sock c) 4 of
        (s1, Inl err) \<Rightarrow> Exited
      | (s1, Inr lenbytes) \<Rightarrow>
          (case ReadFull s1 (unat (Uint32 lenbytes)) of
             (s2, Inl err) \<Rightarrow> Exited
           | (s2, Inr data) \<Rightarrow>
               (case data of
                  [] \<Rightarrow> Panicked
                | code # rest \<Rightarrow>
                    Returned (c\<lparr>sock := s2\<rparr>, Some \<lparr>Code = code, Data = rest\<rparr>, None))))"

section \<open>Writing to the transport\<close>

text \<open>
  \<^verbatim>\<open>WritePacket\<close> (session.go, lines 80 to 111). The length is
  \<^verbatim>\<open>uint32(len(msg.Data) + 1)\<close>: the conversion keeps the low 32 bits. The three
  writes go to a fresh \<^verbatim>\<open>bufio.Writer\<close>, which passes them to the socket in order; a
  write that fails on the socket surfaces in \<^verbatim>\<open>buffer.Write\<close> or \<^verbatim>\<open>buffer.Flush\<close>,
  and both of those branches call \<^verbatim>\<open>log.Fatal\<close>.
\<close>

definition WritePacket :: "'f milterSession \<Rightarrow> Message \<Rightarrow> ('f milterSession \<times> error option) outcome" where
  "WritePacket c msg =
     (let len = (word_of_nat (length (Data msg) + 1) :: 32 word);
          buffer = PutUint32 len @ [Code msg] @ Data msg
      in if wr_ok (sock c)
         then Returned (c\<lparr>sock := (sock c)\<lparr>wr := wr (sock c) @ buffer\<rparr>\<rparr>, None)
         else Exited)"

section \<open>C strings\<close>

text \<open>
  Modelled from the spec: the constant \<^verbatim>\<open>null\<close> is used by \<^verbatim>\<open>Process\<close> and its
  definition is not among the sources. The spec (4.3) has the HELO string trimmed of the
  protocol terminator, which for the strings of this protocol is one null byte.
\<close>

definition null :: gostring where
  "null = [0]"

text \<open>
  Modelled from the spec: \<^verbatim>\<open>readCString\<close> is called by \<^verbatim>\<open>Process\<close> and its definition
  is not among the sources. The spec (4.2) has it scan to the first null byte and return
  the bytes before it. \<^verbatim>\<open>Process\<close> gets the string alone from it and skips
  \<^verbatim>\<open>len(Hostname)+1\<close> bytes itself. Without a null byte the scan ends with the input.
\<close>

definition readCString :: "byte list \<Rightarrow> gostring" where
  "readCString data = takeWhile (\<lambda>b. b \<noteq> 0) data"

text \<open>
  Modelled from the spec: \<^verbatim>\<open>decodeCStrings\<close> is called by \<^verbatim>\<open>Process\<close> and its
  definition is not among the sources. The spec (4.2) has it apply the string decoder,
  which consumes the string and its terminator, again and again until the input is used
  up, and return the strings in order.
\<close>

fun decodeCStrings :: "byte list \<Rightarrow> gostring list" where
  "decodeCStrings [] = []"
| "decodeCStrings (b # bs) =
     readCString (b # bs) # decodeCStrings (drop (length (readCString (b # bs)) + 1) (b # bs))"

section \<open>Library functions on strings and headers\<close>

text \<open>\<^verbatim>\<open>strings.TrimSuffix\<close> and \<^verbatim>\<open>strings.Trim\<close> of the Go standard library.\<close>

definition TrimSuffix :: "gostring \<Rightarrow> gostring \<Rightarrow> gostring" where
  "TrimSuffix s suffix =
     (if length suffix \<le> length s \<and> drop (length s - length suffix) s = suffix
      then take (length s - length suffix) s else s)"

definition Trim :: "gostring \<Rightarrow> gostring \<Rightarrow> gostring" where
  "Trim s cutset =
     rev (dropWhile (\<lambda>b. b \<in> set cutset) (rev (dropWhile (\<lambda>b. b \<in> set cutset) s)))"

text \<open>
  \<^verbatim>\<open>textproto.CanonicalMIMEHeaderKey\<close> of the Go standard library: a key made of
  header-field bytes only (letters, digits and the token punctuation) gets its first
  letter and every letter after a hyphen in upper case and all other letters in lower
  case; any other key is returned as it is.
\<close>

definition validHeaderFieldByte :: "byte \<Rightarrow> bool" where
  "validHeaderFieldByte c \<longleftrightarrow>
     (0x30 \<le> c \<and> c \<le> 0x39) \<or> (0x61 \<le> c \<and> c \<le> 0x7A) \<or> (0x41 \<le> c \<and> c \<le> 0x5A)
     \<or> c \<in> set (str ''!#$%&*+-.^_`|~'') \<or> c = 0x27"

fun canonicalize :: "bool \<Rightarrow> byte list \<Rightarrow> byte list" where
  "canonicalize upper [] = []"
| "canonicalize upper (c # cs) =
     (let c' = (if upper \<and> 0x61 \<le> c \<and> c \<le> 0x7A then c - 0x20
                else if \<not> upper \<and> 0x41 \<le> c \<and> c \<le> 0x5A then c + 0x20
                else c)
      in c' # canonicalize (c' = 0x2D) cs)"

definition CanonicalMIMEHeaderKey :: "gostring \<Rightarrow> gostring" where
  "CanonicalMIMEHeaderKey s = (if list_all validHeaderFieldByte s then canonicalize True s else s)"

text \<open>
  \<^verbatim>\<open>h[key]\<close> on a header set: the values under the key, none when the key is missing.
  \<^verbatim>\<open>MIMEHeader.Add\<close> is
  \<^verbatim>\<open>key = CanonicalMIMEHeaderKey(key); h[key] = append(h[key], value)\<close>.
\<close>

definition values_of :: "MIMEHeader \<Rightarrow> gostring \<Rightarrow> gostring list" where
  "values_of h key = (case h key of None \<Rightarrow> [] | Some vs \<Rightarrow> vs)"

definition MIMEHeader_Add :: "MIMEHeader \<Rightarrow> gostring \<Rightarrow> gostring \<Rightarrow> MIMEHeader" where
  "MIMEHeader_Add h key val =
     (let k = CanonicalMIMEHeaderKey key
      in h(k \<mapsto> values_of h k @ [val]))"

section \<open>Responses, the modifier and the filter\<close>

text \<open>message.go, lines 10 to 16.\<close>

definition acceptMilter :: byte where "acceptMilter = 0x61"
definition continueMilter :: byte where "continueMilter = 0x63"
definition discardMilter :: byte where "discardMilter = 0x64"
definition rejectMilter :: byte where "rejectMilter = 0x72"
definition tempFailMilter :: byte where "tempFailMilter = 0x74"

text \<open>
  The session loop uses a response through two methods only, \<^verbatim>\<open>Response()\<close> (the
  message to send) and \<^verbatim>\<open>Continue()\<close>; a response is modelled as what the two return.
\<close>

record Response =
  Response_Message :: Message
  Continue :: bool

text \<open>
  Modelled from the spec: \<^verbatim>\<open>NewResponse\<close> is called by \<^verbatim>\<open>Process\<close> and its definition
  is not among the sources. By the spec (3, 4.5) a response is a response code plus an
  optional payload, and its continuation flag is true for every response except the
  terminal verdicts accept, reject, discard and temp-fail.
\<close>

definition NewResponse :: "byte \<Rightarrow> byte list \<Rightarrow> Response" where
  "NewResponse code data =
     \<lparr>Response_Message = \<lparr>Code = code, Data = data\<rparr>,
      Continue = (code \<notin> {acceptMilter, discardMilter, rejectMilter, tempFailMilter})\<rparr>"

text \<open>
  Modelled from the spec: \<^verbatim>\<open>RespContinue\<close> is returned by \<^verbatim>\<open>Process\<close> and its
  definition is not among the sources. By the spec (4.3, 4.5) it is the fixed verdict
  "continue"; its code is \<^verbatim>\<open>continueMilter\<close> of message.go and it has no payload.
\<close>

definition RespContinue :: Response where
  "RespContinue = NewResponse continueMilter []"

text \<open>
  Modelled from the spec: \<^verbatim>\<open>RespTempFail\<close> is returned by \<^verbatim>\<open>Process\<close> and its
  definition is not among the sources. By the spec (4.3, 4.5) it is the fixed verdict
  "temp-fail"; its code is \<^verbatim>\<open>tempFailMilter\<close> of message.go and it has no payload.
\<close>

definition RespTempFail :: Response where
  "RespTempFail = NewResponse tempFailMilter []"

text \<open>
  Modelled from the spec: the type of the modifier is not among the sources. By the spec
  (4.4) a modifier is bound to one session, checks each requested action against the
  negotiated action bits, and stages what it is asked for, to go out with the verdict
  response; it does not write to the transport. It is modelled as what it takes from
  the session it is bound to.
\<close>

record Modifier =
  Modifier_actions :: OptAction
  Modifier_macros :: "(gostring \<rightharpoonup> gostring) option"
  Modifier_headers :: "MIMEHeader option"

text \<open>
  Modelled from the spec: \<^verbatim>\<open>newModifier\<close> is called by \<^verbatim>\<open>Process\<close> and its definition
  is not among the sources. By the spec (4.4) it makes a fresh modifier, bound to the
  session, for every callback.
\<close>

definition newModifier :: "'f milterSession \<Rightarrow> Modifier" where
  "newModifier c =
     \<lparr>Modifier_actions = actions c, Modifier_macros = macros c, Modifier_headers = headers c\<rparr>"

text \<open>
  The filter interface \<^verbatim>\<open>Milter\<close>, with the methods and arguments that \<^verbatim>\<open>Process\<close>
  calls (the declaration of the interface is not among the sources). A method gets the
  filter's state too and returns the new one beside its \<^verbatim>\<open>(Response, error)\<close>;
  \<open>None\<close> stands for \<^verbatim>\<open>nil\<close>. \<^verbatim>\<open>net.IP\<close> is a byte slice. A method is taken to
  return.
\<close>

type_synonym 'f callback = "Modifier \<Rightarrow> 'f \<Rightarrow> (Response option \<times> error option) \<times> 'f"

record 'f Milter =
  Connect :: "gostring \<Rightarrow> gostring \<Rightarrow> 16 word \<Rightarrow> byte list \<Rightarrow> 'f callback"
  Helo :: "gostring \<Rightarrow> 'f callback"
  MailFrom :: "gostring \<Rightarrow> 'f callback"
  RcptTo :: "gostring \<Rightarrow> 'f callback"
  Header :: "gostring \<Rightarrow> gostring \<Rightarrow> 'f callback"
  Headers :: "MIMEHeader option \<Rightarrow> 'f callback"
  BodyChunk :: "byte list \<Rightarrow> 'f callback"
  Body :: "'f callback"

text \<open>\<^verbatim>\<open>return c.milter.M(..., newModifier(c))\<close>, for a method \<open>M\<close> applied to its arguments.\<close>

definition callback :: "'f milterSession \<Rightarrow> 'f callback \<Rightarrow>
    ('f milterSession \<times> Response option \<times> error option) outcome" where
  "callback c m =
     (case m (newModifier c) (milter c) of
        ((resp, err), f) \<Rightarrow> Returned (c\<lparr>milter := f\<rparr>, resp, err))"

section \<open>Processing one command\<close>

text \<open>\<^verbatim>\<open>c.sock.Close()\<close> and \<^verbatim>\<open>log.Printf\<close>.\<close>

definition Close :: "'f milterSession \<Rightarrow> 'f milterSession" where
  "Close c = c\<lparr>sock := (sock c)\<lparr>closed := True\<rparr>\<rparr>"

definition Printf :: "logline \<Rightarrow> 'f milterSession \<Rightarrow> 'f milterSession" where
  "Printf l c = c\<lparr>logged := logged c @ [l]\<rparr>"

text \<open>The table of line 146; a key that is not in a Go map reads as the empty string.\<close>

definition family :: "byte \<Rightarrow> gostring" where
  "family b =
     (case [0x55 \<mapsto> str ''unknown'', 0x4C \<mapsto> str ''unix'',
            0x34 \<mapsto> str ''tcp4'', 0x36 \<mapsto> str ''tcp6''] b of
        None \<Rightarrow> [] | Some name \<Rightarrow> name)"

text \<open>
  The loop of lines 167 to 169 over the decoded strings, two at a time; with one string
  left over, \<^verbatim>\<open>data[i+1]\<close> is an index out of range (\<open>None\<close>).
\<close>

fun store_macros :: "gostring list \<Rightarrow> (gostring \<rightharpoonup> gostring) \<Rightarrow> (gostring \<rightharpoonup> gostring) option" where
  "store_macros [] m = Some m"
| "store_macros [k] m = None"
| "store_macros (k # v # rest) m = store_macros rest (m(k \<mapsto> v))"

text \<open>
  \<^verbatim>\<open>Process\<close> (session.go, lines 114 to 237). \<open>ParseIP\<close> stands for \<^verbatim>\<open>net.ParseIP\<close>
  and \<open>ms\<close> holds the methods of \<^verbatim>\<open>c.milter\<close>. The command codes are the ASCII
  letters of the \<^verbatim>\<open>switch\<close>, in its order. A slice expression \<^verbatim>\<open>s[n:]\<close> with
  \<open>n > len(s)\<close> and an index at or beyond the length panic.
\<close>

definition Process :: "(gostring \<Rightarrow> byte list) \<Rightarrow> 'f Milter \<Rightarrow> 'f milterSession \<Rightarrow> Message \<Rightarrow>
    ('f milterSession \<times> Response option \<times> error option) outcome" where
  "Process ParseIP ms c msg =
    (if Code msg = 0x41 \<comment> \<open>'A'\<close> then
       Returned (c\<lparr>headers := None, macros := None\<rparr>, None, None)
     else if Code msg = 0x42 \<comment> \<open>'B'\<close> then
       callback c (BodyChunk ms (Data msg))
     else if Code msg = 0x43 \<comment> \<open>'C'\<close> then
       (let Hostname = readCString (Data msg) in
        if length (Data msg) < length Hostname + 1 then Panicked
        else
          (case drop (length Hostname + 1) (Data msg) of
             [] \<Rightarrow> Panicked
           | protocolFamily # data1 \<Rightarrow>
               (case (if protocolFamily = 0x34 \<or> protocolFamily = 0x36
                      then (if length data1 < 2 then None
                            else Some (Uint16 data1, drop 2 data1))
                      else Some (0, data1)) of
                  None \<Rightarrow> Returned (c, Some RespTempFail, None)
                | Some (Port, data2) \<Rightarrow>
                    (let Address = readCString data2 in
                     callback c (Connect ms Hostname (family protocolFamily) Port
                                   (ParseIP Address))))))
     else if Code msg = 0x44 \<comment> \<open>'D'\<close> then
       (case Data msg of
          [] \<Rightarrow> Panicked
        | selector # rest \<Rightarrow>
            (case store_macros (decodeCStrings rest) Map.empty of
               None \<Rightarrow> Panicked
             | Some m \<Rightarrow> Returned (c\<lparr>macros := Some m\<rparr>, None, None)))
     else if Code msg = 0x45 \<comment> \<open>'E'\<close> then
       callback c (Body ms)
     else if Code msg = 0x48 \<comment> \<open>'H'\<close> then
       (let name = TrimSuffix (Data msg) null in
        callback c (Helo ms name))
     else if Code msg = 0x4C \<comment> \<open>'L'\<close> then
       (let h = (case headers c of None \<Rightarrow> Map.empty | Some h \<Rightarrow> h) in
        (case decodeCStrings (Data msg) of
           [name, val] \<Rightarrow>
             callback (c\<lparr>headers := Some (MIMEHeader_Add h name val)\<rparr>) (Header ms name val)
         | _ \<Rightarrow> Returned (c\<lparr>headers := Some h\<rparr>, Some RespContinue, None)))
     else if Code msg = 0x4D \<comment> \<open>'M'\<close> then
       (let envfrom = readCString (Data msg) in
        callback c (MailFrom ms (Trim envfrom (str ''<>''))))
     else if Code msg = 0x4E \<comment> \<open>'N'\<close> then
       callback c (Headers ms (headers c))
     else if Code msg = 0x4F \<comment> \<open>'O'\<close> then
       Returned (c, Some (NewResponse 0x4F
         (PutUint32 2 @ PutUint32 (actions c) @ PutUint32 (protocol c))), None)
     else if Code msg = 0x51 \<comment> \<open>'Q'\<close> then
       Returned (c, None, Some errCloseSession)
     else if Code msg = 0x52 \<comment> \<open>'R'\<close> then
       (let envto = readCString (Data msg) in
        callback c (RcptTo ms (Trim envto (str ''<>''))))
     else if Code msg = 0x54 \<comment> \<open>'T'\<close> then
       Returned (c, Some RespContinue, None)
     else
       Returned (Printf (LogUnrecognized (Code msg)) c, None, Some errCloseSession))"

section \<open>The session loop\<close>

text \<open>
  \<^verbatim>\<open>HandleMilterCommands\<close> (session.go, lines 240 to 278). Every \<^verbatim>\<open>return\<close> runs the
  deferred \<^verbatim>\<open>Close\<close>. A panic is not recovered anywhere, so it ends the program, and
  so does \<^verbatim>\<open>log.Fatal\<close>: neither gives a session back. Each round takes a whole packet
  from the bytes still to come, so the loop ends.
\<close>

function HandleMilterCommands :: "(gostring \<Rightarrow> byte list) \<Rightarrow> 'f Milter \<Rightarrow> 'f milterSession \<Rightarrow>
    'f milterSession outcome" where
  "HandleMilterCommands ParseIP ms c =
     (case ReadPacket c of
        Panicked \<Rightarrow> Panicked
      | Exited \<Rightarrow> Exited
      | Returned (c1, _, Some err) \<Rightarrow>
          Returned (Close (if err \<noteq> EOF then Printf (LogReadError err) c1 else c1))
      | Returned (c1, None, None) \<Rightarrow> Panicked
      | Returned (c1, Some msg, None) \<Rightarrow>
          (case Process ParseIP ms c1 msg of
             Panicked \<Rightarrow> Panicked
           | Exited \<Rightarrow> Exited
           | Returned (c2, _, Some err) \<Rightarrow>
               Returned (Close (if err \<noteq> errCloseSession
                                then Printf (LogProcessError err) c2 else c2))
           | Returned (c2, None, None) \<Rightarrow> HandleMilterCommands ParseIP ms c2
           | Returned (c2, Some resp, None) \<Rightarrow>
               (case WritePacket c2 (Response_Message resp) of
                  Panicked \<Rightarrow> Panicked
                | Exited \<Rightarrow> Exited
                | Returned (c3, Some err) \<Rightarrow> Returned (Close (Printf (LogWriteError err) c3))
                | Returned (c3, None) \<Rightarrow>
                    if Continue resp then HandleMilterCommands ParseIP ms c3
                    else Returned (Close c3))))"
  by pat_completeness auto
termination
proof (relation "measure (\<lambda>(P, ms, c). length (rd (sock c)))")
  show "wf (measure (\<lambda>(P, ms, c). length (rd (sock c))))"
    by simp
next
  fix ParseIP :: "gostring \<Rightarrow> byte list" and ms :: "'f Milter"
    and c c1 c2 :: "'f milterSession" and x1 y msg x1a yb
  assume rp: "ReadPacket c = Returned x1" "(c1, y) = x1"
    and pr: "Process ParseIP ms c1 msg = Returned x1a" "(c2, yb) = x1a"
  have "length (rd (sock c1)) < length (rd (sock c))"
    using rp
    by (auto simp: ReadPacket_def ReadFull_def split: prod.splits sum.splits list.splits if_splits)
  moreover have "sock c2 = sock c1"
    using pr unfolding Process_def Printf_def Let_def callback_def
    by (auto split: if_splits list.splits option.splits prod.splits)
  ultimately show "((ParseIP, ms, c2), ParseIP, ms, c) \<in> measure (\<lambda>(P, ms, c). length (rd (sock c)))"
    by simp
next
  fix ParseIP :: "gostring \<Rightarrow> byte list" and ms :: "'f Milter"
    and c c1 c2 c3 :: "'f milterSession" and x1 y msg x1a yb and resp :: Response and x1b yd
  assume rp: "ReadPacket c = Returned x1" "(c1, y) = x1"
    and pr: "Process ParseIP ms c1 msg = Returned x1a" "(c2, yb) = x1a"
    and wp: "WritePacket c2 (Response_Message resp) = Returned x1b" "(c3, yd) = x1b"
  have "length (rd (sock c1)) < length (rd (sock c))"
    using rp
    by (auto simp: ReadPacket_def ReadFull_def split: prod.splits sum.splits list.splits if_splits)
  moreover have "sock c2 = sock c1"
    using pr unfolding Process_def Printf_def Let_def callback_def
    by (auto split: if_splits list.splits option.splits prod.splits)
  moreover have "rd (sock c3) = rd (sock c2)"
    using wp by (auto simp: WritePacket_def Let_def split: if_splits)
  ultimately show "((ParseIP, ms, c3), ParseIP, ms, c) \<in> measure (\<lambda>(P, ms, c). length (rd (sock c)))"
    by simp
qed

declare HandleMilterCommands.simps [simp del]

text \<open>
  server.go, lines 21 to 27: \<^verbatim>\<open>RunServer\<close> makes the session of an accepted connection
  from what \<^verbatim>\<open>init\<close> returns; the fields it does not name are \<^verbatim>\<open>nil\<close>.
\<close>

definition newSession :: "'f \<Rightarrow> OptAction \<Rightarrow> OptProtocol \<Rightarrow> conn \<Rightarrow> 'f milterSession" where
  "newSession m a p client =
     \<lparr>actions = a, protocol = p, sock = client, headers = None, macros = None,
      milter = m, logged = []\<rparr>"

text \<open>
  An accepted connection on which the peer sends the bytes \<open>bs\<close> and then ends the
  stream with \<open>e\<close>; nothing is written yet, and writing works.
\<close>

definition accepted :: "byte list \<Rightarrow> error \<Rightarrow> conn" where
  "accepted bs e = \<lparr>rd = bs, rd_err = e, wr = [], wr_ok = True, closed = False\<rparr>"

section \<open>A filter that records its calls\<close>

text \<open>
  For running the session on concrete input: a filter whose every method answers
  \<^verbatim>\<open>RespContinue, nil\<close> and whose state is the list of the calls it received, with
  their arguments, in order.
\<close>

datatype call =
    Connect_call gostring gostring "16 word" "byte list"
  | Helo_call gostring
  | MailFrom_call gostring
  | RcptTo_call gostring
  | Header_call gostring gostring
  | Headers_call "MIMEHeader option"
  | BodyChunk_call "byte list"
  | Body_call

definition record_call :: "call \<Rightarrow> call list callback" where
  "record_call x m calls = ((Some RespContinue, None), calls @ [x])"

definition recorder :: "call list Milter" where
  "recorder =
     \<lparr>Connect = (\<lambda>host fam port addr. record_call (Connect_call host fam port addr)),
      Helo = (\<lambda>name. record_call (Helo_call name)),
      MailFrom = (\<lambda>addr. record_call (MailFrom_call addr)),
      RcptTo = (\<lambda>addr. record_call (RcptTo_call addr)),
      Header = (\<lambda>name val. record_call (Header_call name val)),
      Headers = (\<lambda>h. record_call (Headers_call h)),
      BodyChunk = (\<lambda>chunk. record_call (BodyChunk_call chunk)),
      Body = record_call Body_call\<rparr>"

section \<open>Properties\<close>

lemma Uint32_PutUint32: "Uint32 (PutUint32 v) = v"
proof -
  have "bit (push_bit 24 (ucast (ucast (drop_bit 24 v) :: byte)) OR
             push_bit 16 (ucast (ucast (drop_bit 16 v) :: byte)) OR
             push_bit 8 (ucast (ucast (drop_bit 8 v) :: byte)) OR
             ucast (ucast v :: byte) :: 32 word) n = bit v n" if "n < 32" for n
  proof -
    consider "n < 8" | "8 \<le> n" "n < 16" | "16 \<le> n" "n < 24" | "24 \<le> n"
      by linarith
    then show ?thesis
      using that by cases (auto simp: bit_simps)
  qed
  then show ?thesis
    unfolding Uint32_def PutUint32_def by (intro bit_word_eqI) simp
qed

lemma length_PutUint32: "length (PutUint32 v) = 4"
  by (simp add: PutUint32_def)

lemma ReadFull_prefix:
  "ReadFull (s\<lparr>rd := bs @ rest\<rparr>) (length bs) = (s\<lparr>rd := rest\<rparr>, Inr bs)"
  by (simp add: ReadFull_def)

lemma ReadPacket_frame:
  assumes "length data + 1 < 2 ^ 32"
  shows "ReadPacket (c\<lparr>sock := (sock c)\<lparr>rd := PutUint32 (word_of_nat (length data + 1)) @ code # data @ rest\<rparr>\<rparr>)
         = Returned (c\<lparr>sock := (sock c)\<lparr>rd := rest\<rparr>\<rparr>, Some \<lparr>Code = code, Data = data\<rparr>, None)"
proof -
  define n :: "32 word" where "n = word_of_nat (length data + 1)"
  have n: "unat n = length (code # data)"
    using assms of_nat_inverse [of "length data + 1" n] by (simp add: n_def)
  have 1: "ReadFull ((sock c)\<lparr>rd := PutUint32 n @ code # data @ rest\<rparr>) 4
           = ((sock c)\<lparr>rd := code # data @ rest\<rparr>, Inr (PutUint32 n))"
    using ReadFull_prefix [where s = "sock c" and bs = "PutUint32 n" and rest = "code # data @ rest"]
    by (simp add: length_PutUint32)
  have 2: "ReadFull ((sock c)\<lparr>rd := code # data @ rest\<rparr>) (unat n)
           = ((sock c)\<lparr>rd := rest\<rparr>, Inr (code # data))"
    using ReadFull_prefix [where s = "sock c" and bs = "code # data" and rest = rest]
    unfolding n by simp
  have "ReadPacket (c\<lparr>sock := (sock c)\<lparr>rd := PutUint32 n @ code # data @ rest\<rparr>\<rparr>)
         = Returned (c\<lparr>sock := (sock c)\<lparr>rd := rest\<rparr>\<rparr>, Some \<lparr>Code = code, Data = data\<rparr>, None)"
    unfolding ReadPacket_def by (simp add: 1 Uint32_PutUint32 2)
  then show ?thesis
    unfolding n_def .
qed

lemma readCString_terminated:
  "0 \<notin> set s \<Longrightarrow> readCString (s @ 0 # rest) = s"
  by (induction s) (auto simp: readCString_def)

lemma decodeCStrings_terminated:
  assumes "0 \<notin> set s"
  shows "decodeCStrings (s @ 0 # rest) = s # decodeCStrings rest"
proof -
  obtain b bs where e: "s @ 0 # rest = b # bs"
    by (cases s) auto
  have r: "readCString (b # bs) = s"
    using readCString_terminated [OF assms, of rest] by (simp add: e)
  have "drop (length s + 1) (s @ 0 # rest) = rest"
    by simp
  then have d: "drop (length s + 1) (b # bs) = rest"
    unfolding e .
  have "decodeCStrings (b # bs)
          = readCString (b # bs) # decodeCStrings (drop (length (readCString (b # bs)) + 1) (b # bs))"
    by (rule decodeCStrings.simps(2))
  then show ?thesis
    unfolding d r e .
qed

lemma decodeCStrings_pair:
  "0 \<notin> set name \<Longrightarrow> 0 \<notin> set val \<Longrightarrow> decodeCStrings (name @ 0 # val @ [0]) = [name, val]"
  by (simp add: decodeCStrings_terminated)

lemma ReadPacket_frame1:
  "ReadPacket (c\<lparr>sock := (sock c)\<lparr>rd := [0, 0, 0, 1, code] @ rest\<rparr>\<rparr>)
     = Returned (c\<lparr>sock := (sock c)\<lparr>rd := rest\<rparr>\<rparr>, Some \<lparr>Code = code, Data = []\<rparr>, None)"
  by (simp add: ReadPacket_def ReadFull_def Uint32_def)

lemma loop_quit:
  "HandleMilterCommands ParseIP ms (c\<lparr>sock := (sock c)\<lparr>rd := [0, 0, 0, 1, 0x51] @ rest\<rparr>\<rparr>)
     = Returned (c\<lparr>sock := (sock c)\<lparr>rd := rest, closed := True\<rparr>\<rparr>)"
  by (subst HandleMilterCommands.simps, subst ReadPacket_frame1)
    (simp add: Process_def Close_def)

lemma loop_negotiate:
  assumes "wr_ok (sock c)"
  shows "HandleMilterCommands ParseIP ms (c\<lparr>sock := (sock c)\<lparr>rd := [0, 0, 0, 1, 0x4F] @ rest\<rparr>\<rparr>)
     = HandleMilterCommands ParseIP ms (c\<lparr>sock := (sock c)\<lparr>rd := rest,
          wr := wr (sock c) @ [0, 0, 0, 13, 0x4F] @ PutUint32 2 @ PutUint32 (actions c)
                  @ PutUint32 (protocol c)\<rparr>\<rparr>)"
  using assms
  by (subst HandleMilterCommands.simps, subst ReadPacket_frame1)
    (simp add: Process_def NewResponse_def WritePacket_def length_PutUint32 PutUint32_def
      acceptMilter_def discardMilter_def rejectMilter_def tempFailMilter_def)

lemma update_order:
  "c\<lparr>headers := h, macros := m, sock := s\<rparr> = c\<lparr>sock := s, headers := h, macros := m\<rparr>"
  by (cases c) simp

section \<open>Malformed frames\<close>

text \<open>
  Claim C1: a frame with a malformed payload, such as one of declared length 0 or a
  define-macros command that decodes to an odd number of strings, ends only its own
  session with an error result and never crashes. The code does not do so. On a frame of
  declared length 0, \<^verbatim>\<open>ReadPacket\<close> reads \<^verbatim>\<open>data[0]\<close> of an empty slice and panics,
  and so does the session loop; on the define-macros payload \<^verbatim>\<open>C j NUL\<close> (a selector
  byte and the single string \<^verbatim>\<open>j\<close>) \<^verbatim>\<open>Process\<close> reads \<^verbatim>\<open>data[1]\<close> of a slice of
  length 1 and panics, and on the empty define-macros payload \<^verbatim>\<open>msg.Data[1:]\<close> is
  out of range.
\<close>

theorem malformed_frames_panic:
  "ReadPacket (c\<lparr>sock := (sock c)\<lparr>rd := [0, 0, 0, 0] @ rest\<rparr>\<rparr>) = Panicked
   \<and> HandleMilterCommands ParseIP ms (c\<lparr>sock := (sock c)\<lparr>rd := [0, 0, 0, 0] @ rest\<rparr>\<rparr>) = Panicked
   \<and> Process ParseIP ms c \<lparr>Code = 0x44, Data = [0x43, 0x6A, 0]\<rparr> = Panicked
   \<and> Process ParseIP ms c \<lparr>Code = 0x44, Data = []\<rparr> = Panicked"
proof -
  have r: "ReadPacket (c\<lparr>sock := (sock c)\<lparr>rd := [0, 0, 0, 0] @ rest\<rparr>\<rparr>) = Panicked"
    by (simp add: ReadPacket_def ReadFull_def Uint32_def)
  have h: "HandleMilterCommands ParseIP ms (c\<lparr>sock := (sock c)\<lparr>rd := [0, 0, 0, 0] @ rest\<rparr>\<rparr>) = Panicked"
    using r by (subst HandleMilterCommands.simps) simp
  have d: "Process ParseIP ms c \<lparr>Code = 0x44, Data = [0x43, 0x6A, 0]\<rparr> = Panicked"
    by (simp add: Process_def Printf_def readCString_def)
  have e: "Process ParseIP ms c \<lparr>Code = 0x44, Data = []\<rparr> = Panicked"
    by (simp add: Process_def Printf_def)
  from r h d e show ?thesis by simp
qed

section \<open>Read failures\<close>

text \<open>
  Claim C2: on a read failure \<^verbatim>\<open>ReadPacket\<close> returns the error to the session loop,
  which ends the session and logs the error unless it is a clean end of stream. The
  code does not do so. When the stream has ended, whatever the error \<open>e\<close> the transport
  reports (a clean \<open>EOF\<close> too), \<^verbatim>\<open>ReadPacket\<close> calls \<^verbatim>\<open>log.Fatal\<close>, which ends the
  whole process; it returns nothing, and neither does the session loop.
\<close>

theorem read_failure_exits:
  "ReadPacket (c\<lparr>sock := (sock c)\<lparr>rd := [], rd_err := e\<rparr>\<rparr>) = Exited
   \<and> HandleMilterCommands ParseIP ms (c\<lparr>sock := (sock c)\<lparr>rd := [], rd_err := e\<rparr>\<rparr>) = Exited"
proof -
  have r: "ReadPacket (c\<lparr>sock := (sock c)\<lparr>rd := [], rd_err := e\<rparr>\<rparr>) = Exited"
    by (simp add: ReadPacket_def ReadFull_def)
  then show ?thesis
    by (subst HandleMilterCommands.simps) simp
qed

section \<open>Negotiation\<close>

text \<open>
  Claim C4: whatever the client proposes in a negotiate command (code \<^verbatim>\<open>O\<close>),
  \<^verbatim>\<open>Process\<close> leaves the session as it was, returns no error and answers with a
  negotiate response (code \<^verbatim>\<open>O\<close>, continuing) whose payload is twelve bytes, three
  big-endian 32-bit values with the most significant byte first: the version 2, the
  action bits of the session and the protocol bits of the session, as configured and
  not intersected with the proposal. Read back four bytes at a time, the payload gives
  2, the action bits and the protocol bits.
\<close>

theorem negotiate_echo:
  "(let a = actions c; p = protocol c;
        payload = [0, 0, 0, 2,
                   ucast (drop_bit 24 a), ucast (drop_bit 16 a), ucast (drop_bit 8 a), ucast a,
                   ucast (drop_bit 24 p), ucast (drop_bit 16 p), ucast (drop_bit 8 p), ucast p]
    in Process ParseIP ms c \<lparr>Code = 0x4F, Data = proposal\<rparr>
         = Returned (c, Some (NewResponse 0x4F payload), None)
       \<and> Response_Message (NewResponse 0x4F payload) = \<lparr>Code = 0x4F, Data = payload\<rparr>
       \<and> Continue (NewResponse 0x4F payload)
       \<and> payload = PutUint32 2 @ PutUint32 (actions c) @ PutUint32 (protocol c)
       \<and> length payload = 12
       \<and> Uint32 (take 4 payload) = 2
       \<and> Uint32 (take 4 (drop 4 payload)) = actions c
       \<and> Uint32 (take 4 (drop 8 payload)) = protocol c)"
proof -
  have p: "PutUint32 2 = [0, 0, 0, 2]"
    by (simp add: PutUint32_def)
  have u: "Uint32 [ucast (drop_bit 24 v), ucast (drop_bit 16 v), ucast (drop_bit 8 v), ucast v] = v"
    for v :: "32 word"
    using Uint32_PutUint32 [of v] by (simp add: PutUint32_def)
  have u2: "Uint32 [0, 0, 0, 2] = 2"
    by (simp add: Uint32_def)
  show ?thesis
    unfolding Let_def
    by (simp add: Process_def NewResponse_def p u u2 PutUint32_def acceptMilter_def
        discardMilter_def rejectMilter_def tempFailMilter_def)
qed

section \<open>Abort\<close>

text \<open>
  Claim C5: an abort command (code \<^verbatim>\<open>A\<close>) clears the per-message state. In any session
  state \<open>c\<close>, so also after any sequence of header and macro commands, \<^verbatim>\<open>Process\<close>
  leaves both \<^verbatim>\<open>headers\<close> and \<^verbatim>\<open>macros\<close> \<^verbatim>\<open>nil\<close> and returns no response and no
  error. The session loop, having read an abort frame, writes nothing, does not close,
  and goes on with the bytes after it from the cleared state. So when a quit frame
  follows the abort, the loop reads it too and only then closes and returns, with
  nothing written; and when a negotiate frame and a quit frame follow, the negotiate
  response is the one frame written, after the abort, on the same connection. The abort
  frame may carry any payload that its 32-bit length can count.
\<close>

theorem abort_clears_state:
  assumes "length d + 1 < 2 ^ 32"
  shows "Process ParseIP ms c \<lparr>Code = 0x41, Data = d\<rparr>
           = Returned (c\<lparr>headers := None, macros := None\<rparr>, None, None)
         \<and> HandleMilterCommands ParseIP ms
             (c\<lparr>sock := (sock c)\<lparr>rd := PutUint32 (word_of_nat (length d + 1)) @ 0x41 # d @ rest\<rparr>\<rparr>)
           = HandleMilterCommands ParseIP ms
               (c\<lparr>sock := (sock c)\<lparr>rd := rest\<rparr>, headers := None, macros := None\<rparr>)
         \<and> HandleMilterCommands ParseIP ms
             (c\<lparr>sock := (sock c)\<lparr>rd := PutUint32 (word_of_nat (length d + 1)) @ 0x41 # d
                @ [0, 0, 0, 1, 0x51] @ rest\<rparr>\<rparr>)
           = Returned (c\<lparr>sock := (sock c)\<lparr>rd := rest, closed := True\<rparr>,
                         headers := None, macros := None\<rparr>)
         \<and> (wr_ok (sock c) \<longrightarrow>
            HandleMilterCommands ParseIP ms
             (c\<lparr>sock := (sock c)\<lparr>rd := PutUint32 (word_of_nat (length d + 1)) @ 0x41 # d
                @ [0, 0, 0, 1, 0x4F] @ [0, 0, 0, 1, 0x51] @ rest\<rparr>\<rparr>)
           = Returned (c\<lparr>sock := (sock c)\<lparr>rd := rest,
                           wr := wr (sock c) @ [0, 0, 0, 13, 0x4F] @ PutUint32 2
                                   @ PutUint32 (actions c) @ PutUint32 (protocol c),
                           closed := True\<rparr>,
                         headers := None, macros := None\<rparr>))"
proof -
  have p: "Process ParseIP ms c' \<lparr>Code = 0x41, Data = d\<rparr>
           = Returned (c'\<lparr>headers := None, macros := None\<rparr>, None, None)" for c' :: "'a milterSession"
    by (simp add: Process_def)
  have l: "HandleMilterCommands ParseIP ms
             (c\<lparr>sock := (sock c)\<lparr>rd := PutUint32 (word_of_nat (length d + 1)) @ 0x41 # d @ rest'\<rparr>\<rparr>)
           = HandleMilterCommands ParseIP ms
               (c\<lparr>sock := (sock c)\<lparr>rd := rest'\<rparr>, headers := None, macros := None\<rparr>)" for rest'
    by (subst HandleMilterCommands.simps, subst ReadPacket_frame [OF assms]) (simp add: p)
  have q: "HandleMilterCommands ParseIP ms
             (c\<lparr>sock := (sock c)\<lparr>rd := PutUint32 (word_of_nat (length d + 1)) @ 0x41 # d
                @ [0, 0, 0, 1, 0x51] @ rest\<rparr>\<rparr>)
           = Returned (c\<lparr>sock := (sock c)\<lparr>rd := rest, closed := True\<rparr>,
                         headers := None, macros := None\<rparr>)"
    using loop_quit [where c = "c\<lparr>headers := None, macros := None\<rparr>" and rest = rest
        and ParseIP = ParseIP and ms = ms]
    by (subst l) (simp add: update_order)
  have n: "HandleMilterCommands ParseIP ms
             (c\<lparr>sock := (sock c)\<lparr>rd := PutUint32 (word_of_nat (length d + 1)) @ 0x41 # d
                @ [0, 0, 0, 1, 0x4F] @ [0, 0, 0, 1, 0x51] @ rest\<rparr>\<rparr>)
           = Returned (c\<lparr>sock := (sock c)\<lparr>rd := rest,
                           wr := wr (sock c) @ [0, 0, 0, 13, 0x4F] @ PutUint32 2
                                   @ PutUint32 (actions c) @ PutUint32 (protocol c),
                           closed := True\<rparr>,
                         headers := None, macros := None\<rparr>)" if w: "wr_ok (sock c)"
  proof -
    let ?c1 = "c\<lparr>headers := None, macros := None\<rparr>"
    let ?c2 = "?c1\<lparr>sock := (sock ?c1)\<lparr>rd := [0, 0, 0, 1, 0x51] @ rest,
          wr := wr (sock ?c1) @ [0, 0, 0, 13, 0x4F] @ PutUint32 2 @ PutUint32 (actions ?c1)
                  @ PutUint32 (protocol ?c1)\<rparr>\<rparr>"
    have "wr_ok (sock ?c1)"
      using w by simp
    from loop_negotiate [OF this, where rest = "[0, 0, 0, 1, 0x51] @ rest" and ParseIP = ParseIP and ms = ms]
    have "HandleMilterCommands ParseIP ms
            (?c1\<lparr>sock := (sock ?c1)\<lparr>rd := [0, 0, 0, 1, 0x4F] @ [0, 0, 0, 1, 0x51] @ rest\<rparr>\<rparr>)
          = HandleMilterCommands ParseIP ms ?c2" .
    also have "?c2 = ?c2\<lparr>sock := (sock ?c2)\<lparr>rd := [0, 0, 0, 1, 0x51] @ rest\<rparr>\<rparr>"
      by simp
    also have "HandleMilterCommands ParseIP ms \<dots> = Returned (?c2\<lparr>sock := (sock ?c2)\<lparr>rd := rest, closed := True\<rparr>\<rparr>)"
      by (rule loop_quit)
    finally show ?thesis
      by (subst l) (simp add: update_order)
  qed
  from p l q n show ?thesis by blast
qed

theorem abort_clears_state_witness:
  "Process (\<lambda>a. []) recorder
       \<lparr>actions = 0x3F, protocol = 0,
        sock = \<lparr>rd = [], rd_err = EOF, wr = [0, 0, 0, 1, 0x63], wr_ok = True, closed = False\<rparr>,
        headers = Some [str ''To'' \<mapsto> [str ''bob'']], macros = Some [str ''j'' \<mapsto> str ''mx''],
        milter = [Header_call (str ''To'') (str ''bob'')], logged = []\<rparr>
       \<lparr>Code = 0x41, Data = []\<rparr>
     = Returned (\<lparr>actions = 0x3F, protocol = 0,
        sock = \<lparr>rd = [], rd_err = EOF, wr = [0, 0, 0, 1, 0x63], wr_ok = True, closed = False\<rparr>,
        headers = None, macros = None,
        milter = [Header_call (str ''To'') (str ''bob'')], logged = []\<rparr>, None, None)
   \<and> HandleMilterCommands (\<lambda>a. []) recorder
       \<lparr>actions = 0x3F, protocol = 0,
        sock = \<lparr>rd = [0, 0, 0, 1, 0x41, 0, 0, 0, 1, 0x51, 9], rd_err = EOF,
                wr = [0, 0, 0, 1, 0x63], wr_ok = True, closed = False\<rparr>,
        headers = Some [str ''To'' \<mapsto> [str ''bob'']], macros = Some [str ''j'' \<mapsto> str ''mx''],
        milter = [Header_call (str ''To'') (str ''bob'')], logged = []\<rparr>
     = Returned \<lparr>actions = 0x3F, protocol = 0,
        sock = \<lparr>rd = [9], rd_err = EOF, wr = [0, 0, 0, 1, 0x63], wr_ok = True, closed = True\<rparr>,
        headers = None, macros = None,
        milter = [Header_call (str ''To'') (str ''bob'')], logged = []\<rparr>
   \<and> HandleMilterCommands (\<lambda>a. []) recorder
       \<lparr>actions = 0x3F, protocol = 0,
        sock = \<lparr>rd = [0, 0, 0, 1, 0x41, 0, 0, 0, 1, 0x4F, 0, 0, 0, 1, 0x51, 9], rd_err = EOF,
                wr = [0, 0, 0, 1, 0x63], wr_ok = True, closed = False\<rparr>,
        headers = Some [str ''To'' \<mapsto> [str ''bob'']], macros = Some [str ''j'' \<mapsto> str ''mx''],
        milter = [Header_call (str ''To'') (str ''bob'')], logged = []\<rparr>
     = Returned \<lparr>actions = 0x3F, protocol = 0,
        sock = \<lparr>rd = [9], rd_err = EOF,
                wr = [0, 0, 0, 1, 0x63, 0, 0, 0, 13, 0x4F, 0, 0, 0, 2, 0, 0, 0, 0x3F, 0, 0, 0, 0],
                wr_ok = True, closed = True\<rparr>,
        headers = None, macros = None,
        milter = [Header_call (str ''To'') (str ''bob'')], logged = []\<rparr>
   \<and> HandleMilterCommands (\<lambda>a. []) recorder
       (newSession [] 0x3F 0 (accepted
          ([0, 0, 0, 7, 0x44, 0x43] @ str ''j'' @ [0] @ str ''mx'' @ [0]
           @ [0, 0, 0, 8, 0x4C] @ str ''To'' @ [0] @ str ''bob'' @ [0]
           @ [0, 0, 0, 1, 0x41]
           @ [0, 0, 0, 1, 0x51]) EOF))
     = Returned \<lparr>actions = 0x3F, protocol = 0,
        sock = \<lparr>rd = [], rd_err = EOF, wr = [0, 0, 0, 1, 0x63], wr_ok = True, closed = True\<rparr>,
        headers = None, macros = None,
        milter = [Header_call (str ''To'') (str ''bob'')], logged = []\<rparr>"
  using abort_clears_state [where d = "[]" and ParseIP = "\<lambda>a. []" and ms = recorder
      and c = "\<lparr>actions = 0x3F, protocol = 0,
        sock = \<lparr>rd = [], rd_err = EOF, wr = [0, 0, 0, 1, 0x63], wr_ok = True, closed = False\<rparr>,
        headers = Some [str ''To'' \<mapsto> [str ''bob'']], macros = Some [str ''j'' \<mapsto> str ''mx''],
        milter = [Header_call (str ''To'') (str ''bob'')], logged = []\<rparr>" and rest = "[9]"]
  by (simp add: HandleMilterCommands.simps ReadPacket_def ReadFull_def Uint32_def
      Process_def Printf_def WritePacket_def PutUint32_def NewResponse_def RespContinue_def
      Close_def newSession_def accepted_def acceptMilter_def discardMilter_def rejectMilter_def
      tempFailMilter_def continueMilter_def callback_def recorder_def record_call_def
      newModifier_def readCString_def MIMEHeader_Add_def values_of_def Let_def
      CanonicalMIMEHeaderKey_def validHeaderFieldByte_def str_def)

section \<open>Connection information\<close>

text \<open>
  Claim C7: a connection-info command (code \<^verbatim>\<open>C\<close>) with a hostname ended by a zero
  byte, the family byte \<^verbatim>\<open>4\<close> or \<^verbatim>\<open>6\<close>, and fewer than two bytes left for the port
  makes \<^verbatim>\<open>Process\<close> return the temp-fail verdict (code \<^verbatim>\<open>t\<close>, no payload) with no
  error; the session is unchanged and nothing panics.
\<close>

theorem short_connect_tempfail:
  assumes "0 \<notin> set host" and "fam = 0x34 \<or> fam = 0x36" and "length rest < 2"
  shows "Process ParseIP ms c \<lparr>Code = 0x43, Data = host @ 0 # fam # rest\<rparr>
           = Returned (c, Some RespTempFail, None)
         \<and> Response_Message RespTempFail = \<lparr>Code = 0x74, Data = []\<rparr>"
  using assms
  by (auto simp: Process_def Printf_def readCString_terminated RespTempFail_def NewResponse_def tempFailMilter_def)

theorem short_connect_tempfail_witness:
  "Process (\<lambda>a. []) recorder (newSession [] 0 0 (accepted [] EOF))
       \<lparr>Code = 0x43, Data = str ''mx'' @ [0, 0x34, 0]\<rparr>
     = Returned (newSession [] 0 0 (accepted [] EOF), Some RespTempFail, None)"
  using short_connect_tempfail [of "str ''mx''" "0x34" "[0]" "\<lambda>a. []" recorder
      "newSession [] 0 0 (accepted [] EOF)"]
  by (simp add: str_def)

text \<open>
  Claim C10: a connection-info command whose family byte is not one of \<^verbatim>\<open>U\<close>,
  \<^verbatim>\<open>L\<close>, \<^verbatim>\<open>4\<close>, \<^verbatim>\<open>6\<close> does not make \<^verbatim>\<open>Process\<close> fail. No port bytes are
  taken: the address is read right after the family byte. The filter's \<^verbatim>\<open>Connect\<close>
  method is called with the hostname, the empty string as the family name, port 0 and
  the parsed address, and \<^verbatim>\<open>Process\<close> returns what the method returns.
\<close>

theorem unknown_family_connect:
  assumes "0 \<notin> set host" and "fam \<notin> {0x55, 0x4C, 0x34, 0x36}"
  shows "Process ParseIP ms c \<lparr>Code = 0x43, Data = host @ 0 # fam # rest\<rparr>
           = (case Connect ms host [] 0 (ParseIP (readCString rest)) (newModifier c) (milter c) of
                ((resp, err), f) \<Rightarrow> Returned (c\<lparr>milter := f\<rparr>, resp, err))"
  using assms
  by (simp add: Process_def Printf_def readCString_terminated family_def callback_def)

theorem unknown_family_connect_witness:
  "Process (\<lambda>a. a) recorder (newSession [] 0 0 (accepted [] EOF))
       \<lparr>Code = 0x43, Data = str ''mx'' @ [0, 0x58] @ str ''192.0.2.1'' @ [0]\<rparr>
     = Returned (newSession [Connect_call (str ''mx'') [] 0 (str ''192.0.2.1'')] 0 0 (accepted [] EOF),
         Some RespContinue, None)"
  using unknown_family_connect [where host = "str ''mx''" and fam = "0x58"
      and ParseIP = "\<lambda>a. a" and ms = recorder
      and c = "newSession [] 0 0 (accepted [] EOF)" and rest = "str ''192.0.2.1'' @ [0]"]
  by (simp add: str_def recorder_def record_call_def newSession_def readCString_def)

section \<open>Unrecognized commands\<close>

text \<open>
  Claim C8: when the next frame on the transport has a command byte that is none of the
  thirteen codes of the \<^verbatim>\<open>switch\<close>, the session loop logs the byte, closes the
  transport and returns; the bytes written to the peer are the same as before, so no
  response frame was sent, and the bytes after the frame are left unread.
\<close>

theorem unknown_command_closes:
  assumes "code \<notin> {0x41, 0x42, 0x43, 0x44, 0x45, 0x48, 0x4C, 0x4D, 0x4E, 0x4F, 0x51, 0x52, 0x54}"
    and "length d + 1 < 2 ^ 32"
  shows "HandleMilterCommands ParseIP ms
           (c\<lparr>sock := (sock c)\<lparr>rd := PutUint32 (word_of_nat (length d + 1)) @ code # d @ rest\<rparr>\<rparr>)
         = Returned (c\<lparr>sock := (sock c)\<lparr>rd := rest, closed := True\<rparr>,
                       logged := logged c @ [LogUnrecognized code]\<rparr>)"
proof -
  have "Process ParseIP ms c' \<lparr>Code = code, Data = d\<rparr>
        = Returned (c'\<lparr>logged := logged c' @ [LogUnrecognized code]\<rparr>, None, Some errCloseSession)" for c' :: "'a milterSession"
    using assms(1) by (simp add: Process_def Printf_def)
  then show ?thesis
    by (subst HandleMilterCommands.simps, subst ReadPacket_frame [OF assms(2)])
      (simp add: Close_def)
qed

theorem unknown_command_closes_witness:
  "HandleMilterCommands (\<lambda>a. []) recorder
       (newSession [] 0 0 (accepted [0, 0, 0, 3, 0x5A, 7, 7, 0, 0, 0, 1, 0x4F] EOF))
     = Returned \<lparr>actions = 0, protocol = 0,
         sock = \<lparr>rd = [0, 0, 0, 1, 0x4F], rd_err = EOF, wr = [], wr_ok = True, closed = True\<rparr>,
         headers = None, macros = None, milter = [], logged = [LogUnrecognized 0x5A]\<rparr>"
  using unknown_command_closes [where code = "0x5A" and d = "[7, 7]" and ParseIP = "\<lambda>a. []"
      and ms = recorder and c = "newSession [] 0 0 (accepted [] EOF)"
      and rest = "[0, 0, 0, 1, 0x4F]"]
  by (simp add: newSession_def accepted_def PutUint32_def)

section \<open>The frame codec\<close>

text \<open>
  Claim C3, as stated: for every frame, writing it with \<^verbatim>\<open>WritePacket\<close> and decoding
  the bytes with \<^verbatim>\<open>ReadPacket\<close> gives the frame back, the wire form being the 4-byte
  big-endian length \<open>1 + len(data)\<close>, the command byte and the data. This fails for a
  payload of \<open>2\<^sup>3\<^sup>2 - 1\<close> bytes: \<^verbatim>\<open>uint32(len(msg.Data) + 1)\<close> is then 0, the
  wire form starts with the length 0, and \<^verbatim>\<open>ReadPacket\<close> panics on it.
\<close>

theorem frame_round_trip_counterexample:
  "WritePacket (newSession [] 0 0 (accepted [] EOF))
       \<lparr>Code = 0x63, Data = replicate 4294967295 0\<rparr>
     = Returned (newSession [] 0 0 ((accepted [] EOF)
         \<lparr>wr := [0, 0, 0, 0, 0x63] @ replicate 4294967295 0\<rparr>), None)
   \<and> ReadPacket (newSession [] 0 0
         (accepted ([0, 0, 0, 0, 0x63] @ replicate 4294967295 0) EOF)) = Panicked"
  by (simp add: WritePacket_def PutUint32_def newSession_def accepted_def
      ReadPacket_def ReadFull_def Uint32_def)

text \<open>
  Claim C3, amended: for every frame whose payload has fewer than \<open>2\<^sup>3\<^sup>2 - 1\<close> bytes,
  so that \<open>1 + len(data)\<close> fits the 32-bit length field, \<^verbatim>\<open>WritePacket\<close> on a
  transport that takes the bytes appends the 4-byte big-endian length \<open>1 + len(data)\<close>,
  the command byte and the data, and \<^verbatim>\<open>ReadPacket\<close> on these bytes (whatever follows
  them) returns the same frame and leaves what follows unread.
\<close>

theorem frame_round_trip:
  fixes msg :: Message
  assumes "length (Data msg) + 1 < 2 ^ 32" and "wr_ok (sock c)"
  shows "WritePacket c msg
           = Returned (c\<lparr>sock := (sock c)\<lparr>wr := wr (sock c) @
               PutUint32 (word_of_nat (length (Data msg) + 1)) @ Code msg # Data msg\<rparr>\<rparr>, None)
         \<and> unat (word_of_nat (length (Data msg) + 1) :: 32 word) = 1 + length (Data msg)
         \<and> ReadPacket (r\<lparr>sock := (sock r)\<lparr>rd :=
               PutUint32 (word_of_nat (length (Data msg) + 1)) @ Code msg # Data msg @ rest\<rparr>\<rparr>)
           = Returned (r\<lparr>sock := (sock r)\<lparr>rd := rest\<rparr>\<rparr>, Some msg, None)"
proof -
  have w: "WritePacket c msg
           = Returned (c\<lparr>sock := (sock c)\<lparr>wr := wr (sock c) @
               PutUint32 (word_of_nat (length (Data msg) + 1)) @ Code msg # Data msg\<rparr>\<rparr>, None)"
    using assms(2) unfolding WritePacket_def Let_def by simp
  have n: "unat (word_of_nat (length (Data msg) + 1) :: 32 word) = 1 + length (Data msg)"
    using assms(1) of_nat_inverse [of "length (Data msg) + 1" "word_of_nat (length (Data msg) + 1) :: 32 word"]
    by simp
  have "ReadPacket (r\<lparr>sock := (sock r)\<lparr>rd :=
               PutUint32 (word_of_nat (length (Data msg) + 1)) @ Code msg # Data msg @ rest\<rparr>\<rparr>)
           = Returned (r\<lparr>sock := (sock r)\<lparr>rd := rest\<rparr>\<rparr>, Some \<lparr>Code = Code msg, Data = Data msg\<rparr>, None)"
    by (rule ReadPacket_frame [OF assms(1)])
  then have rd: "ReadPacket (r\<lparr>sock := (sock r)\<lparr>rd :=
               PutUint32 (word_of_nat (length (Data msg) + 1)) @ Code msg # Data msg @ rest\<rparr>\<rparr>)
           = Returned (r\<lparr>sock := (sock r)\<lparr>rd := rest\<rparr>\<rparr>, Some msg, None)"
    by simp
  from w n rd show ?thesis by blast
qed

theorem frame_round_trip_witness:
  "WritePacket (newSession [] 0 0 (accepted [] EOF)) \<lparr>Code = 0x63, Data = [1, 2]\<rparr>
     = Returned (newSession [] 0 0 ((accepted [] EOF)\<lparr>wr := [0, 0, 0, 3, 0x63, 1, 2]\<rparr>), None)
   \<and> ReadPacket (newSession [] 0 0 (accepted [0, 0, 0, 3, 0x63, 1, 2, 9] EOF))
     = Returned (newSession [] 0 0 (accepted [9] EOF), Some \<lparr>Code = 0x63, Data = [1, 2]\<rparr>, None)"
  using frame_round_trip [where msg = "\<lparr>Code = 0x63, Data = [1, 2]\<rparr>"
      and c = "newSession [] 0 0 (accepted [] EOF)"
      and r = "newSession [] 0 0 (accepted [] EOF)" and rest = "[9]"]
  by (simp add: newSession_def accepted_def PutUint32_def)

section \<open>Header aggregation\<close>

lemma MIMEHeader_Add_values:
  "values_of (MIMEHeader_Add h name val) k
     = values_of h k @ (if k = CanonicalMIMEHeaderKey name then [val] else [])"
  by (simp add: MIMEHeader_Add_def values_of_def Let_def)

lemma Process_header_wire:
  assumes "0 \<notin> set name" and "0 \<notin> set val"
  shows "Process ParseIP ms c \<lparr>Code = 0x4C, Data = name @ 0 # val @ [0]\<rparr>
     = callback (c\<lparr>headers := Some (MIMEHeader_Add
          (case headers c of None \<Rightarrow> Map.empty | Some h \<Rightarrow> h) name val)\<rparr>)
         (Header ms name val)"
  using decodeCStrings_pair [OF assms] by (simp add: Process_def)

text \<open>
  Claim C6, as stated: after two header commands carrying (name1, value1) and
  (name2, value2) and an end-of-headers command, the header set handed to the filter's
  \<^verbatim>\<open>Headers\<close> method holds both pairs, in insertion order and under the names as they
  were sent. This fails for the names \<^verbatim>\<open>subject\<close> and \<^verbatim>\<open>to\<close>: the session, fed the
  three commands and a quit, hands \<^verbatim>\<open>Headers\<close> a set whose keys are \<^verbatim>\<open>Subject\<close> and
  \<^verbatim>\<open>To\<close>, with nothing under \<^verbatim>\<open>subject\<close>. (The per-header method \<^verbatim>\<open>Header\<close> does
  get the names as sent.)
\<close>

theorem header_names_counterexample:
  "HandleMilterCommands (\<lambda>a. []) recorder
     (newSession [] 0 0 (accepted
        ([0, 0, 0, 12, 0x4C] @ str ''subject'' @ [0] @ str ''hi'' @ [0]
         @ [0, 0, 0, 8, 0x4C] @ str ''to'' @ [0] @ str ''bob'' @ [0]
         @ [0, 0, 0, 1, 0x4E]
         @ [0, 0, 0, 1, 0x51]) EOF))
   = Returned \<lparr>actions = 0, protocol = 0,
       sock = \<lparr>rd = [], rd_err = EOF,
               wr = [0, 0, 0, 1, 0x63, 0, 0, 0, 1, 0x63, 0, 0, 0, 1, 0x63],
               wr_ok = True, closed = True\<rparr>,
       headers = Some [str ''Subject'' \<mapsto> [str ''hi''], str ''To'' \<mapsto> [str ''bob'']],
       macros = None,
       milter = [Header_call (str ''subject'') (str ''hi''), Header_call (str ''to'') (str ''bob''),
                 Headers_call (Some [str ''Subject'' \<mapsto> [str ''hi''], str ''To'' \<mapsto> [str ''bob'']])],
       logged = []\<rparr>
   \<and> [str ''Subject'' \<mapsto> [str ''hi''], str ''To'' \<mapsto> [str ''bob'']] (str ''subject'') = None"
  by (simp add: HandleMilterCommands.simps ReadPacket_def ReadFull_def Uint32_def
      Process_def Printf_def WritePacket_def PutUint32_def NewResponse_def RespContinue_def Close_def
      newSession_def accepted_def acceptMilter_def discardMilter_def rejectMilter_def
      tempFailMilter_def continueMilter_def callback_def recorder_def record_call_def
      newModifier_def readCString_def MIMEHeader_Add_def values_of_def Let_def
      CanonicalMIMEHeaderKey_def validHeaderFieldByte_def str_def)

text \<open>
  Claim C6, amended: let two header commands carrying (name1, value1) and
  (name2, value2), each as the name, a null byte, the value and a null byte, be
  processed one after the other, and then an end-of-headers command. \<^verbatim>\<open>Process\<close>
  returns on all three, with what the filter's \<^verbatim>\<open>Header\<close> and \<^verbatim>\<open>Headers\<close> methods
  return. The \<^verbatim>\<open>Headers\<close> method is called with the session's header set, which is a
  map from canonical MIME header names to lists of values: value1 is appended under the
  canonical form of name1 and then value2 under the canonical form of name2, after
  whatever the set held before. So both values are delivered; the values under one key
  are in order of arrival (value1 before value2 when the two names have the same
  canonical form); the names are delivered in canonical form, and there is no order
  between different keys.
\<close>

theorem header_aggregation:
  assumes "0 \<notin> set name1" and "0 \<notin> set value1" and "0 \<notin> set name2" and "0 \<notin> set value2"
  shows "(let H0 = (case headers c of None \<Rightarrow> Map.empty | Some h \<Rightarrow> h);
              H1 = MIMEHeader_Add H0 name1 value1;
              x1 = Header ms name1 value1 (newModifier (c\<lparr>headers := Some H1\<rparr>)) (milter c);
              c1 = c\<lparr>headers := Some H1, milter := snd x1\<rparr>;
              H = MIMEHeader_Add H1 name2 value2;
              x2 = Header ms name2 value2 (newModifier (c1\<lparr>headers := Some H\<rparr>)) (milter c1);
              c2 = c1\<lparr>headers := Some H, milter := snd x2\<rparr>
          in Process ParseIP ms c \<lparr>Code = 0x4C, Data = name1 @ 0 # value1 @ [0]\<rparr>
               = Returned (c1, fst x1)
           \<and> Process ParseIP ms c1 \<lparr>Code = 0x4C, Data = name2 @ 0 # value2 @ [0]\<rparr>
               = Returned (c2, fst x2)
           \<and> Process ParseIP ms c2 \<lparr>Code = 0x4E, Data = d\<rparr>
               = (case Headers ms (Some H) (newModifier c2) (milter c2) of
                    ((resp, err), f) \<Rightarrow> Returned (c2\<lparr>milter := f\<rparr>, resp, err))
           \<and> values_of H k = values_of H0 k
                 @ (if k = CanonicalMIMEHeaderKey name1 then [value1] else [])
                 @ (if k = CanonicalMIMEHeaderKey name2 then [value2] else []))"
proof -
  define H0 where "H0 = (case headers c of None \<Rightarrow> Map.empty | Some h \<Rightarrow> h)"
  define H1 where "H1 = MIMEHeader_Add H0 name1 value1"
  define x1 where "x1 = Header ms name1 value1 (newModifier (c\<lparr>headers := Some H1\<rparr>)) (milter c)"
  define c1 where "c1 = c\<lparr>headers := Some H1, milter := snd x1\<rparr>"
  define H where "H = MIMEHeader_Add H1 name2 value2"
  define x2 where "x2 = Header ms name2 value2 (newModifier (c1\<lparr>headers := Some H\<rparr>)) (milter c1)"
  define c2 where "c2 = c1\<lparr>headers := Some H, milter := snd x2\<rparr>"
  have p1: "Process ParseIP ms c \<lparr>Code = 0x4C, Data = name1 @ 0 # value1 @ [0]\<rparr>
               = Returned (c1, fst x1)"
    unfolding Process_header_wire [OF assms(1,2)]
    by (simp add: callback_def c1_def x1_def H1_def H0_def split: prod.splits)
  have h1: "(case headers c1 of None \<Rightarrow> Map.empty | Some h \<Rightarrow> h) = H1"
    by (simp add: c1_def)
  have p2: "Process ParseIP ms c1 \<lparr>Code = 0x4C, Data = name2 @ 0 # value2 @ [0]\<rparr>
               = Returned (c2, fst x2)"
    unfolding Process_header_wire [OF assms(3,4)] h1
    by (simp add: callback_def c2_def x2_def H_def split: prod.splits)
  have n: "Process ParseIP ms c2 \<lparr>Code = 0x4E, Data = d\<rparr>
               = (case Headers ms (Some H) (newModifier c2) (milter c2) of
                    ((resp, err), f) \<Rightarrow> Returned (c2\<lparr>milter := f\<rparr>, resp, err))"
    by (simp add: Process_def callback_def c2_def)
  have v: "values_of H k = values_of H0 k
                 @ (if k = CanonicalMIMEHeaderKey name1 then [value1] else [])
                 @ (if k = CanonicalMIMEHeaderKey name2 then [value2] else [])"
    unfolding H_def H1_def by (simp add: MIMEHeader_Add_values)
  from p1 p2 n v show ?thesis
    unfolding Let_def H0_def [symmetric] H1_def [symmetric] x1_def [symmetric] c1_def [symmetric]
      H_def [symmetric] x2_def [symmetric] c2_def [symmetric]
    by blast
qed

theorem header_aggregation_witness:
  "Process (\<lambda>a. []) recorder (newSession [] 0 0 (accepted [] EOF))
       \<lparr>Code = 0x4C, Data = str ''subject'' @ [0] @ str ''hi'' @ [0]\<rparr>
     = Returned (\<lparr>actions = 0, protocol = 0, sock = accepted [] EOF,
         headers = Some [str ''Subject'' \<mapsto> [str ''hi'']], macros = None,
         milter = [Header_call (str ''subject'') (str ''hi'')], logged = []\<rparr>,
         Some RespContinue, None)
   \<and> Process (\<lambda>a. []) recorder
       \<lparr>actions = 0, protocol = 0, sock = accepted [] EOF,
        headers = Some [str ''Subject'' \<mapsto> [str ''hi'']], macros = None,
        milter = [Header_call (str ''subject'') (str ''hi'')], logged = []\<rparr>
       \<lparr>Code = 0x4C, Data = str ''SUBJECT'' @ [0] @ str ''there'' @ [0]\<rparr>
     = Returned (\<lparr>actions = 0, protocol = 0, sock = accepted [] EOF,
         headers = Some [str ''Subject'' \<mapsto> [str ''hi'', str ''there'']], macros = None,
         milter = [Header_call (str ''subject'') (str ''hi''),
                   Header_call (str ''SUBJECT'') (str ''there'')],
         logged = []\<rparr>, Some RespContinue, None)
   \<and> Process (\<lambda>a. []) recorder
       \<lparr>actions = 0, protocol = 0, sock = accepted [] EOF,
        headers = Some [str ''Subject'' \<mapsto> [str ''hi'', str ''there'']], macros = None,
        milter = [Header_call (str ''subject'') (str ''hi''),
                  Header_call (str ''SUBJECT'') (str ''there'')],
        logged = []\<rparr>
       \<lparr>Code = 0x4E, Data = []\<rparr>
     = Returned (\<lparr>actions = 0, protocol = 0, sock = accepted [] EOF,
        headers = Some [str ''Subject'' \<mapsto> [str ''hi'', str ''there'']], macros = None,
        milter = [Header_call (str ''subject'') (str ''hi''),
                  Header_call (str ''SUBJECT'') (str ''there''),
                  Headers_call (Some [str ''Subject'' \<mapsto> [str ''hi'', str ''there'']])],
        logged = []\<rparr>, Some RespContinue, None)
   \<and> values_of (MIMEHeader_Add (MIMEHeader_Add Map.empty (str ''subject'') (str ''hi''))
         (str ''SUBJECT'') (str ''there'')) (str ''Subject'') = [str ''hi'', str ''there'']
   \<and> HandleMilterCommands (\<lambda>a. []) recorder
       (newSession [] 0 0 (accepted
          ([0, 0, 0, 12, 0x4C] @ str ''subject'' @ [0] @ str ''hi'' @ [0]
           @ [0, 0, 0, 15, 0x4C] @ str ''SUBJECT'' @ [0] @ str ''there'' @ [0]
           @ [0, 0, 0, 1, 0x4E]
           @ [0, 0, 0, 1, 0x51]) EOF))
     = Returned \<lparr>actions = 0, protocol = 0,
         sock = \<lparr>rd = [], rd_err = EOF,
                 wr = [0, 0, 0, 1, 0x63, 0, 0, 0, 1, 0x63, 0, 0, 0, 1, 0x63],
                 wr_ok = True, closed = True\<rparr>,
         headers = Some [str ''Subject'' \<mapsto> [str ''hi'', str ''there'']], macros = None,
         milter = [Header_call (str ''subject'') (str ''hi''),
                   Header_call (str ''SUBJECT'') (str ''there''),
                   Headers_call (Some [str ''Subject'' \<mapsto> [str ''hi'', str ''there'']])],
         logged = []\<rparr>"
  using header_aggregation [where ParseIP = "\<lambda>a. []" and ms = recorder
      and c = "newSession [] 0 0 (accepted [] EOF)"
      and ?name1.0 = "str ''subject''" and ?value1.0 = "str ''hi''"
      and ?name2.0 = "str ''SUBJECT''" and ?value2.0 = "str ''there''"
      and d = "[]" and k = "str ''Subject''"]
  by (simp add: HandleMilterCommands.simps ReadPacket_def ReadFull_def Uint32_def
      Process_def Printf_def WritePacket_def PutUint32_def NewResponse_def RespContinue_def
      Close_def newSession_def accepted_def acceptMilter_def discardMilter_def rejectMilter_def
      tempFailMilter_def continueMilter_def callback_def recorder_def record_call_def
      newModifier_def readCString_def MIMEHeader_Add_def values_of_def Let_def
      CanonicalMIMEHeaderKey_def validHeaderFieldByte_def str_def)

section \<open>The negotiated bitmasks\<close>

lemma ReadPacket_bitmasks:
  "ReadPacket c = Returned (c', m, e) \<Longrightarrow> actions c' = actions c \<and> protocol c' = protocol c"
  by (auto simp: ReadPacket_def split: prod.splits sum.splits list.splits)

lemma Process_bitmasks:
  "Process ParseIP ms c msg = Returned (c', r, e) \<Longrightarrow>
     actions c' = actions c \<and> protocol c' = protocol c"
  unfolding Process_def Printf_def Let_def callback_def
  by (auto split: if_splits list.splits option.splits prod.splits)

lemma WritePacket_bitmasks:
  "WritePacket c msg = Returned (c', e) \<Longrightarrow> actions c' = actions c \<and> protocol c' = protocol c"
  by (auto simp: WritePacket_def Let_def split: if_splits)

lemma HandleMilterCommands_bitmasks:
  "HandleMilterCommands ParseIP ms c = Returned c' \<Longrightarrow>
     actions c' = actions c \<and> protocol c' = protocol c"
proof (induction ParseIP ms c rule: HandleMilterCommands.induct)
  case (1 ParseIP ms c)
  show ?case
  proof (cases "ReadPacket c")
    case (Returned x)
    then obtain c1 m e where rp: "ReadPacket c = Returned (c1, m, e)"
      by (cases x) auto
    note b1 = ReadPacket_bitmasks [OF rp]
    show ?thesis
    proof (cases e)
      case (Some err)
      with 1(3) rp b1 show ?thesis
        by (subst (asm) HandleMilterCommands.simps)
          (auto simp: Close_def Printf_def split: if_splits option.splits)
    next
      case None
      note eN = this
      show ?thesis
      proof (cases m)
        case None
        with 1(3) rp eN show ?thesis
          by (subst (asm) HandleMilterCommands.simps) simp
      next
        case (Some msg)
        note mS = this
        show ?thesis
        proof (cases "Process ParseIP ms c1 msg")
          case (Returned y)
          then obtain c2 r e2 where pr: "Process ParseIP ms c1 msg = Returned (c2, r, e2)"
            by (cases y) auto
          note b2 = Process_bitmasks [OF pr]
          show ?thesis
          proof (cases e2)
            case (Some err)
            with 1(3) rp eN mS pr b1 b2 show ?thesis
              by (subst (asm) HandleMilterCommands.simps)
                (auto simp: Close_def Printf_def split: if_splits option.splits)
          next
            case None
            note e2N = this
            show ?thesis
            proof (cases r)
              case None
              with 1(3) rp eN mS pr e2N have "HandleMilterCommands ParseIP ms c2 = Returned c'"
                by (subst (asm) HandleMilterCommands.simps) simp
              with 1(1) [OF rp refl refl mS eN pr refl refl None e2N] b1 b2 show ?thesis
                by simp
            next
              case (Some resp)
              note rS = this
              show ?thesis
              proof (cases "WritePacket c2 (Response_Message resp)")
                case (Returned z)
                then obtain c3 e3 where wp: "WritePacket c2 (Response_Message resp) = Returned (c3, e3)"
                  by (cases z) auto
                note b3 = WritePacket_bitmasks [OF wp]
                show ?thesis
                proof (cases e3)
                  case (Some err)
                  with 1(3) rp eN mS pr e2N rS wp b1 b2 b3 show ?thesis
                    by (subst (asm) HandleMilterCommands.simps)
                      (auto simp: Close_def Printf_def)
                next
                  case None
                  note e3N = this
                  show ?thesis
                  proof (cases "Continue resp")
                    case True
                    with 1(3) rp eN mS pr e2N rS wp e3N
                    have "HandleMilterCommands ParseIP ms c3 = Returned c'"
                      by (subst (asm) HandleMilterCommands.simps) simp
                    with 1(2) [OF rp refl refl mS eN pr refl refl rS e2N wp refl e3N True] b1 b2 b3
                    show ?thesis by simp
                  next
                    case False
                    with 1(3) rp eN mS pr e2N rS wp e3N b1 b2 b3 show ?thesis
                      by (subst (asm) HandleMilterCommands.simps) (auto simp: Close_def)
                  qed
                qed
              next
                case Panicked
                with 1(3) rp eN mS pr e2N rS show ?thesis
                  by (subst (asm) HandleMilterCommands.simps) simp
              next
                case Exited
                with 1(3) rp eN mS pr e2N rS show ?thesis
                  by (subst (asm) HandleMilterCommands.simps) simp
              qed
            qed
          qed
        next
          case Panicked
          with 1(3) rp eN mS show ?thesis
            by (subst (asm) HandleMilterCommands.simps) simp
        next
          case Exited
          with 1(3) rp eN mS show ?thesis
            by (subst (asm) HandleMilterCommands.simps) simp
        qed
      qed
    qed
  next
    case Panicked
    with 1(3) show ?thesis
      by (subst (asm) HandleMilterCommands.simps) simp
  next
    case Exited
    with 1(3) show ?thesis
      by (subst (asm) HandleMilterCommands.simps) simp
  qed
qed

text \<open>
  Claim C9: the action bits and the protocol bits of a session never change after the
  session is made. Whenever \<^verbatim>\<open>ReadPacket\<close>, \<^verbatim>\<open>Process\<close> (on any command) or
  \<^verbatim>\<open>WritePacket\<close> returns, the session it leaves has the two fields it found; and so
  has the session that the whole loop leaves when it returns.
\<close>

theorem bitmasks_unchanged:
  "(ReadPacket c = Returned (c1, m, e1) \<longrightarrow> actions c1 = actions c \<and> protocol c1 = protocol c)
   \<and> (Process ParseIP ms c msg = Returned (c2, r, e2) \<longrightarrow>
        actions c2 = actions c \<and> protocol c2 = protocol c)
   \<and> (WritePacket c msg = Returned (c3, e3) \<longrightarrow>
        actions c3 = actions c \<and> protocol c3 = protocol c)
   \<and> (HandleMilterCommands ParseIP ms c = Returned c4 \<longrightarrow>
        actions c4 = actions c \<and> protocol c4 = protocol c)"
  using ReadPacket_bitmasks [of c c1 m e1] Process_bitmasks [of ParseIP ms c msg c2 r e2]
    WritePacket_bitmasks [of c msg c3 e3] HandleMilterCommands_bitmasks [of ParseIP ms c c4]
  by blast

theorem bitmasks_unchanged_witness:
  "ReadPacket (newSession [] 0x3F 0x40 (accepted [0, 0, 0, 1, 0x4F, 0, 0, 0, 1, 0x51] EOF))
     = Returned (newSession [] 0x3F 0x40 (accepted [0, 0, 0, 1, 0x51] EOF),
         Some \<lparr>Code = 0x4F, Data = []\<rparr>, None)
   \<and> actions (newSession [] 0x3F 0x40 (accepted [0, 0, 0, 1, 0x51] EOF)) = 0x3F
   \<and> protocol (newSession [] 0x3F 0x40 (accepted [0, 0, 0, 1, 0x51] EOF)) = 0x40
   \<and> Process (\<lambda>a. []) recorder
         (newSession [] 0x3F 0x40 (accepted [0, 0, 0, 1, 0x4F, 0, 0, 0, 1, 0x51] EOF))
         \<lparr>Code = 0x4F, Data = []\<rparr>
     = Returned (newSession [] 0x3F 0x40 (accepted [0, 0, 0, 1, 0x4F, 0, 0, 0, 1, 0x51] EOF),
         Some (NewResponse 0x4F [0, 0, 0, 2, 0, 0, 0, 0x3F, 0, 0, 0, 0x40]), None)
   \<and> WritePacket (newSession [] 0x3F 0x40 (accepted [0, 0, 0, 1, 0x4F, 0, 0, 0, 1, 0x51] EOF))
         \<lparr>Code = 0x4F, Data = []\<rparr>
     = Returned (newSession [] 0x3F 0x40
         ((accepted [0, 0, 0, 1, 0x4F, 0, 0, 0, 1, 0x51] EOF)\<lparr>wr := [0, 0, 0, 1, 0x4F]\<rparr>), None)
   \<and> HandleMilterCommands (\<lambda>a. []) recorder
         (newSession [] 0x3F 0x40 (accepted [0, 0, 0, 1, 0x4F, 0, 0, 0, 1, 0x51] EOF))
     = Returned (newSession [] 0x3F 0x40 ((accepted [] EOF)
         \<lparr>wr := [0, 0, 0, 13, 0x4F, 0, 0, 0, 2, 0, 0, 0, 0x3F, 0, 0, 0, 0x40], closed := True\<rparr>))
   \<and> actions (newSession [] 0x3F 0x40 ((accepted [] EOF)
         \<lparr>wr := [0, 0, 0, 13, 0x4F, 0, 0, 0, 2, 0, 0, 0, 0x3F, 0, 0, 0, 0x40], closed := True\<rparr>)) = 0x3F
   \<and> protocol (newSession [] 0x3F 0x40 ((accepted [] EOF)
         \<lparr>wr := [0, 0, 0, 13, 0x4F, 0, 0, 0, 2, 0, 0, 0, 0x3F, 0, 0, 0, 0x40], closed := True\<rparr>)) = 0x40"
  using bitmasks_unchanged [where c = "newSession [] 0x3F 0x40 (accepted [0, 0, 0, 1, 0x4F, 0, 0, 0, 1, 0x51] EOF)"
      and ParseIP = "\<lambda>a. []" and ms = recorder
      and msg = "\<lparr>Code = 0x4F, Data = []\<rparr>"
      and ?c1.0 = "newSession [] 0x3F 0x40 (accepted [0, 0, 0, 1, 0x51] EOF)"
      and m = "Some \<lparr>Code = 0x4F, Data = []\<rparr>" and ?e1.0 = None
      and ?c2.0 = "newSession [] 0x3F 0x40 (accepted [0, 0, 0, 1, 0x4F, 0, 0, 0, 1, 0x51] EOF)"
      and r = "Some (NewResponse 0x4F [0, 0, 0, 2, 0, 0, 0, 0x3F, 0, 0, 0, 0x40])" and ?e2.0 = None
      and ?c3.0 = "newSession [] 0x3F 0x40
         ((accepted [0, 0, 0, 1, 0x4F, 0, 0, 0, 1, 0x51] EOF)\<lparr>wr := [0, 0, 0, 1, 0x4F]\<rparr>)"
      and ?e3.0 = None
      and ?c4.0 = "newSession [] 0x3F 0x40 ((accepted [] EOF)
         \<lparr>wr := [0, 0, 0, 13, 0x4F, 0, 0, 0, 2, 0, 0, 0, 0x3F, 0, 0, 0, 0x40], closed := True\<rparr>)"]
  by (simp add: HandleMilterCommands.simps ReadPacket_def ReadFull_def Uint32_def
      Process_def Printf_def WritePacket_def PutUint32_def NewResponse_def Close_def
      newSession_def accepted_def acceptMilter_def discardMilter_def rejectMilter_def
      tempFailMilter_def)

end
